theory Spec2Isabelle
  imports Main "HOL-Library.AList"
begin

section \<open>Python values and responses\<close>

text \<open>
  The values that end up in a response body: \<open>None\<close>, integers, strings, lists and
  dictionaries with string keys. A dictionary is an association list in insertion
  order with distinct keys, as a Python \<open>dict\<close> is.
\<close>

datatype pyval =
    PNone
  | PInt int
  | PStr string
  | PList "pyval list"
  | PDict "(string \<times> pyval) list"

type_synonym pydict = "(string \<times> pyval) list"

text \<open>
  \<open>d.update(extra)\<close>: every key of \<open>extra\<close>, in order, replaces the value of that key
  where \<open>d\<close> has it and is appended otherwise.
\<close>

definition dict_update :: "pydict \<Rightarrow> pydict \<Rightarrow> pydict" where
  "dict_update d extra = foldl (\<lambda>acc kv. AList.update (fst kv) (snd kv) acc) d extra"

text \<open>\<open>rest_framework.response.Response(data, status=...)\<close>.\<close>

record response =
  data :: pyval
  status :: int

abbreviation HTTP_200_OK :: int where "HTTP_200_OK \<equiv> 200"
abbreviation HTTP_400_BAD_REQUEST :: int where "HTTP_400_BAD_REQUEST \<equiv> 400"
abbreviation HTTP_403_FORBIDDEN :: int where "HTTP_403_FORBIDDEN \<equiv> 403"
abbreviation HTTP_404_NOT_FOUND :: int where "HTTP_404_NOT_FOUND \<equiv> 404"
abbreviation HTTP_405_METHOD_NOT_ALLOWED :: int where "HTTP_405_METHOD_NOT_ALLOWED \<equiv> 405"
abbreviation HTTP_406_NOT_ACCEPTABLE :: int where "HTTP_406_NOT_ACCEPTABLE \<equiv> 406"
abbreviation HTTP_409_CONFLICT :: int where "HTTP_409_CONFLICT \<equiv> 409"
abbreviation HTTP_415_UNSUPPORTED_MEDIA_TYPE :: int where "HTTP_415_UNSUPPORTED_MEDIA_TYPE \<equiv> 415"
abbreviation HTTP_429_TOO_MANY_REQUESTS :: int where "HTTP_429_TOO_MANY_REQUESTS \<equiv> 429"
abbreviation HTTP_500_INTERNAL_SERVER_ERROR :: int where "HTTP_500_INTERNAL_SERVER_ERROR \<equiv> 500"
abbreviation HTTP_503_SERVICE_UNAVAILABLE :: int where "HTTP_503_SERVICE_UNAVAILABLE \<equiv> 503"

text \<open>
  \<open>_error_response(message, code, status_code, errors=None, extra=None)\<close>. The argument
  \<open>extra\<close> is \<open>None\<close> or a dictionary; \<open>if extra:\<close> holds for a dictionary that is not
  empty.
\<close>

definition error_response ::
  "string \<Rightarrow> string \<Rightarrow> int \<Rightarrow> pyval \<Rightarrow> pydict option \<Rightarrow> response" where
  "error_response message code status_code errors extra =
     (let inner = [(''code'', PStr code), (''message'', PStr message), (''details'', errors)];
          inner' = (case extra of
                      None \<Rightarrow> inner
                    | Some x \<Rightarrow> if x \<noteq> [] then dict_update inner x else inner)
      in \<lparr>data = PDict [(''error'', PDict inner')], status = status_code\<rparr>)"

text \<open>
  \<open>BaseViewSet.success_response(data=None, message="Success.", status_code=200)\<close>; the
  defaults are written out at the call.
\<close>

definition success_response :: "pyval \<Rightarrow> string \<Rightarrow> int \<Rightarrow> response" where
  "success_response d message status_code =
     \<lparr>data = PDict [(''message'', PStr message), (''data'', d)], status = status_code\<rparr>"

text \<open>Reading a key of the body, and a key of the object under \<open>"error"\<close>.\<close>

definition body_field :: "string \<Rightarrow> response \<Rightarrow> pyval option" where
  "body_field k r = (case data r of PDict d \<Rightarrow> map_of d k | _ \<Rightarrow> None)"

definition error_field :: "string \<Rightarrow> response \<Rightarrow> pyval option" where
  "error_field k r =
     (case body_field ''error'' r of Some (PDict inner) \<Rightarrow> map_of inner k | _ \<Rightarrow> None)"


section \<open>Exceptions\<close>

text \<open>
  The exception classes that \<open>handle_exception\<close> tests with \<open>isinstance\<close>, from
  \<open>rest_framework.exceptions\<close>, \<open>django.core.exceptions\<close>, \<open>django.http\<close>,
  \<open>django.db\<close> and \<open>django.db.models.deletion\<close>; \<open>OtherClass\<close> is any class
  the handler never names.
\<close>

datatype cls =
    DRFValidationError | ParseError | NotAuthenticated | AuthenticationFailed
  | DRFPermissionDenied | NotFound | MethodNotAllowed | NotAcceptable
  | UnsupportedMediaType | Throttled | APIException
  | Http404 | ObjectDoesNotExist | MultipleObjectsReturned | PermissionDenied
  | DjangoValidationError | SuspiciousOperation | DisallowedHost | FieldDoesNotExist
  | ProtectedError | RestrictedError | IntegrityError | DataError
  | OperationalError | ProgrammingError | DatabaseError
  | OtherClass string

text \<open>The direct base classes, as the two libraries declare them.\<close>

fun bases :: "cls \<Rightarrow> cls list" where
  "bases DRFValidationError = [APIException]"
| "bases ParseError = [APIException]"
| "bases NotAuthenticated = [APIException]"
| "bases AuthenticationFailed = [APIException]"
| "bases DRFPermissionDenied = [APIException]"
| "bases NotFound = [APIException]"
| "bases MethodNotAllowed = [APIException]"
| "bases NotAcceptable = [APIException]"
| "bases UnsupportedMediaType = [APIException]"
| "bases Throttled = [APIException]"
| "bases DisallowedHost = [SuspiciousOperation]"
| "bases ProtectedError = [IntegrityError]"
| "bases RestrictedError = [IntegrityError]"
| "bases IntegrityError = [DatabaseError]"
| "bases DataError = [DatabaseError]"
| "bases OperationalError = [DatabaseError]"
| "bases ProgrammingError = [DatabaseError]"
| "bases _ = []"

text \<open>
  The classes an object of a class is an instance of: the class, its bases and their
  bases; no chain of bases is longer.
\<close>

definition mro_of :: "cls \<Rightarrow> cls list" where
  "mro_of C = C # concat (map (\<lambda>B. B # bases B) (bases C))"

text \<open>
  What evaluating an expression on an exception object gives: a value, or an exception
  raised, given by its classes and its text. Reading an attribute that is a property
  runs the code of the property, and \<open>str(x)\<close> runs \<open>x.__str__\<close>; both may raise.
\<close>

datatype 'a outcome = Raising "cls list" string | Value 'a

text \<open>
  The value of the attribute \<open>protected_objects\<close>: \<open>None\<close>, or a collection of
  objects. The handler iterates the collection and calls \<open>str(obj)\<close> on every object,
  so the collection is given by what each \<open>str(obj)\<close> gives, in the order of iteration.
\<close>

datatype objects = NoneValue | Objects "string outcome list"

text \<open>
  An exception object, as far as the handler looks at it: the classes it is an instance
  of (its class and the ancestors of its class), what \<open>str(exc)\<close> gives, and the
  attributes the handler reads. An attribute that the object does not have is \<open>None\<close>
  here; one that it has is what reading it gives. \<open>wait\<close> holds the Python value of
  the attribute, which may itself be \<open>PNone\<close>. \<open>str_detail\<close> is what
  \<open>str(exc.detail)\<close> gives.
\<close>

record exc =
  mro :: "cls list"
  str_exc :: "string outcome"
  detail :: "pyval outcome option"
  str_detail :: "string outcome"
  status_code :: "int outcome option"
  default_code :: "string outcome option"
  wait :: "pyval outcome option"
  protected_objects :: "objects outcome option"
  message_dict :: "(string \<times> string list) list outcome option"
  messages :: "string list outcome option"

definition isinstance :: "exc \<Rightarrow> cls \<Rightarrow> bool" where
  "isinstance e C = (C \<in> set (mro e))"

text \<open>A new exception of some classes with no attribute but its text.\<close>

definition plain_exception :: "cls list \<Rightarrow> string \<Rightarrow> exc" where
  "plain_exception cs s =
     \<lparr>mro = cs, str_exc = Value s, detail = None, str_detail = Value [], status_code = None,
      default_code = None, wait = None, protected_objects = None, message_dict = None,
      messages = None\<rparr>"

definition AttributeError :: "string \<Rightarrow> exc" where
  "AttributeError name = plain_exception [OtherClass ''AttributeError''] name"

definition TypeError :: "string \<Rightarrow> exc" where
  "TypeError s = plain_exception [OtherClass ''TypeError''] s"

text \<open>
  A computation that returns a value or raises: \<open>Inl\<close> carries the exception raised.
  \<open>and_then\<close> runs the rest of the computation on the value returned.
\<close>

definition and_then :: "exc + 'a \<Rightarrow> ('a \<Rightarrow> exc + 'b) \<Rightarrow> exc + 'b" where
  "and_then r f = (case r of Inl e \<Rightarrow> Inl e | Inr v \<Rightarrow> f v)"

definition evaluate :: "'a outcome \<Rightarrow> exc + 'a" where
  "evaluate x = (case x of Raising cs s \<Rightarrow> Inl (plain_exception cs s) | Value v \<Rightarrow> Inr v)"

text \<open>
  \<open>exc.name\<close> raises \<open>AttributeError\<close> where the object has no such attribute, and what
  the property raises where it has one that raises. \<open>hasattr(exc, name)\<close> is \<open>False\<close>
  where reading the attribute raises an \<open>AttributeError\<close>; any other exception of the
  property comes out of \<open>hasattr\<close>. \<open>getattr(exc, name, default)\<close> gives the default in
  the cases where \<open>hasattr\<close> is \<open>False\<close>.
\<close>

definition getattr :: "string \<Rightarrow> 'a outcome option \<Rightarrow> exc + 'a" where
  "getattr name field =
     (case field of None \<Rightarrow> Inl (AttributeError name) | Some x \<Rightarrow> evaluate x)"

definition hasattr :: "'a outcome option \<Rightarrow> exc + bool" where
  "hasattr field =
     (case field of
        None \<Rightarrow> Inr False
      | Some (Raising cs s) \<Rightarrow>
          if OtherClass ''AttributeError'' \<in> set cs then Inr False
          else Inl (plain_exception cs s)
      | Some (Value v) \<Rightarrow> Inr True)"

definition getattr_default :: "'a outcome option \<Rightarrow> 'a \<Rightarrow> exc + 'a" where
  "getattr_default field dflt =
     (case field of
        None \<Rightarrow> Inr dflt
      | Some (Raising cs s) \<Rightarrow>
          if OtherClass ''AttributeError'' \<in> set cs then Inr dflt
          else Inl (plain_exception cs s)
      | Some (Value v) \<Rightarrow> Inr v)"

text \<open>
  \<open>[str(obj) for obj in objs]\<close>: the texts of the objects in order; the first
  \<open>str(obj)\<close> that raises ends the comprehension.
\<close>

fun str_each :: "string outcome list \<Rightarrow> exc + string list" where
  "str_each [] = Inr []"
| "str_each (x # xs) =
     and_then (evaluate x) (\<lambda>t. and_then (str_each xs) (\<lambda>ts. Inr (t # ts)))"

section \<open>The view set: flags\<close>

record config =
  LOG_REQUESTS :: bool
  SAFE_DB_ERRORS :: bool


section \<open>The classifier\<close>

text \<open>
  \<open>BaseViewSet.handle_exception(self, exc)\<close>: the chain of \<open>isinstance\<close> tests in the
  order of the source, the first that holds deciding the response. The logger formats
  its arguments itself and keeps what that raises to itself, so of a call of the logger
  only the reading of \<open>exc.detail\<close> among its arguments is kept; the attribute
  \<open>request\<close> is read for the log line of the last branch only. Keyword arguments are
  evaluated in the order they are written.
\<close>

definition handle_exception :: "'z config_scheme \<Rightarrow> exc \<Rightarrow> exc + response" where
  "handle_exception self e =
    (if isinstance e DRFValidationError then
       and_then (getattr ''detail'' (detail e)) (\<lambda>d.
       Inr (error_response ''Invalid input.'' ''validation_error'' HTTP_400_BAD_REQUEST d None))
     else if isinstance e ParseError then
       and_then (getattr ''detail'' (detail e)) (\<lambda>d.
       Inr (error_response ''Malformed request body.'' ''parse_error'' HTTP_400_BAD_REQUEST d None))
     else if isinstance e NotAuthenticated \<or> isinstance e AuthenticationFailed then
       and_then (getattr ''detail'' (detail e)) (\<lambda>d.
       and_then (evaluate (str_detail e)) (\<lambda>message.
       and_then (getattr ''status_code'' (status_code e)) (\<lambda>sc.
       Inr (error_response message ''authentication_error'' sc PNone None))))
     else if isinstance e DRFPermissionDenied then
       and_then (getattr ''detail'' (detail e)) (\<lambda>d.
       and_then (evaluate (str_detail e)) (\<lambda>message.
       Inr (error_response message ''permission_denied'' HTTP_403_FORBIDDEN PNone None)))
     else if isinstance e NotFound then
       and_then (getattr ''detail'' (detail e)) (\<lambda>d.
       and_then (evaluate (str_detail e)) (\<lambda>message.
       Inr (error_response message ''not_found'' HTTP_404_NOT_FOUND PNone None)))
     else if isinstance e MethodNotAllowed then
       and_then (getattr ''detail'' (detail e)) (\<lambda>d.
       and_then (evaluate (str_detail e)) (\<lambda>message.
       Inr (error_response message ''method_not_allowed'' HTTP_405_METHOD_NOT_ALLOWED
              PNone None)))
     else if isinstance e NotAcceptable then
       and_then (getattr ''detail'' (detail e)) (\<lambda>d.
       and_then (evaluate (str_detail e)) (\<lambda>message.
       Inr (error_response message ''not_acceptable'' HTTP_406_NOT_ACCEPTABLE PNone None)))
     else if isinstance e UnsupportedMediaType then
       and_then (getattr ''detail'' (detail e)) (\<lambda>d.
       and_then (evaluate (str_detail e)) (\<lambda>message.
       Inr (error_response message ''unsupported_media_type''
              HTTP_415_UNSUPPORTED_MEDIA_TYPE PNone None)))
     else if isinstance e Throttled then
       and_then (getattr ''wait'' (wait e)) (\<lambda>w.
       let extra = (if w \<noteq> PNone then [(''retry_after'', w)] else [])
       in Inr (error_response ''Request throttled. Try again later.'' ''throttled''
                 HTTP_429_TOO_MANY_REQUESTS PNone (Some extra)))
     else if isinstance e APIException then
       and_then (getattr ''detail'' (detail e)) (\<lambda>d.
       and_then (evaluate (str_detail e)) (\<lambda>message.
       and_then (getattr_default (default_code e) ''api_error'') (\<lambda>code.
       and_then (getattr ''status_code'' (status_code e)) (\<lambda>sc.
       Inr (error_response message code sc PNone None)))))
     else if isinstance e Http404 then
       Inr (error_response ''The requested resource was not found.'' ''not_found''
              HTTP_404_NOT_FOUND PNone None)
     else if isinstance e ObjectDoesNotExist then
       Inr (error_response ''The requested object does not exist.'' ''not_found''
              HTTP_404_NOT_FOUND PNone None)
     else if isinstance e MultipleObjectsReturned then
       Inr (error_response ''Multiple objects found where only one was expected.''
              ''multiple_objects'' HTTP_500_INTERNAL_SERVER_ERROR PNone None)
     else if isinstance e PermissionDenied then
       Inr (error_response ''You do not have permission to perform this action.''
              ''permission_denied'' HTTP_403_FORBIDDEN PNone None)
     else if isinstance e DjangoValidationError then
       and_then
         (and_then (hasattr (message_dict e)) (\<lambda>has.
            if has then
              and_then (getattr ''message_dict'' (message_dict e)) (\<lambda>md.
              Inr (PDict (map (\<lambda>(field, ms). (field, PList (map PStr ms))) md)))
            else
              and_then (getattr ''messages'' (messages e)) (\<lambda>ms.
              Inr (PDict [(''non_field_errors'', PList (map PStr ms))]))))
         (\<lambda>errors.
       Inr (error_response ''Invalid input.'' ''validation_error'' HTTP_400_BAD_REQUEST
              errors None))
     else if isinstance e SuspiciousOperation \<or> isinstance e DisallowedHost then
       Inr (error_response ''Bad request.'' ''bad_request'' HTTP_400_BAD_REQUEST PNone None)
     else if isinstance e FieldDoesNotExist then
       Inr (error_response ''A referenced field does not exist.'' ''field_does_not_exist''
              HTTP_400_BAD_REQUEST PNone None)
     else if isinstance e ProtectedError \<or> isinstance e RestrictedError then
       and_then
         (and_then (hasattr (protected_objects e)) (\<lambda>has.
            if has then
              and_then (getattr ''protected_objects'' (protected_objects e)) (\<lambda>v.
              case v of
                NoneValue \<Rightarrow> Inl (TypeError ''NoneType object is not iterable'')
              | Objects objs \<Rightarrow> str_each objs)
            else Inr []))
         (\<lambda>dependents.
       Inr (error_response
              ''Cannot delete this object because it is referenced by other records.''
              ''protected_object'' HTTP_409_CONFLICT
              (PDict [(''dependents'', PList (map PStr (take 10 dependents)))]) None))
     else if isinstance e IntegrityError then
       and_then
         (if SAFE_DB_ERRORS self then Inr ''A database integrity constraint was violated.''
          else evaluate (str_exc e))
         (\<lambda>msg.
       Inr (error_response msg ''integrity_error'' HTTP_409_CONFLICT PNone None))
     else if isinstance e DataError then
       and_then
         (if SAFE_DB_ERRORS self
          then Inr ''The provided data is invalid for the database schema.''
          else evaluate (str_exc e))
         (\<lambda>msg.
       Inr (error_response msg ''data_error'' HTTP_400_BAD_REQUEST PNone None))
     else if isinstance e OperationalError then
       Inr (error_response ''A database operational error occurred. Please try again later.''
              ''db_operational_error'' HTTP_503_SERVICE_UNAVAILABLE PNone None)
     else if isinstance e ProgrammingError \<or> isinstance e DatabaseError then
       Inr (error_response ''An unexpected database error occurred.'' ''db_error''
              HTTP_500_INTERNAL_SERVER_ERROR PNone None)
     else
       Inr (error_response ''An unexpected internal error occurred.'' ''internal_server_error''
              HTTP_500_INTERNAL_SERVER_ERROR PNone None))"

text \<open>
  The classes named by the tests of \<open>handle_exception\<close>, in the order of the tests, and
  the first of them that an exception is an instance of: its kind. An exception of no
  named class has no kind.
\<close>

definition named_classes :: "cls list" where
  "named_classes =
     [DRFValidationError, ParseError, NotAuthenticated, AuthenticationFailed,
      DRFPermissionDenied, NotFound, MethodNotAllowed, NotAcceptable, UnsupportedMediaType,
      Throttled, APIException, Http404, ObjectDoesNotExist, MultipleObjectsReturned,
      PermissionDenied, DjangoValidationError, SuspiciousOperation, DisallowedHost,
      FieldDoesNotExist, ProtectedError, RestrictedError, IntegrityError, DataError,
      OperationalError, ProgrammingError, DatabaseError]"

definition first_match :: "exc \<Rightarrow> cls option" where
  "first_match e = find (isinstance e) named_classes"

text \<open>The constructors of the libraries that the source and the examples call.\<close>

text \<open>
  An exception of a subclass \<open>C\<close> of \<open>APIException\<close>, with its status code, its
  default code and a detail that is one string.
\<close>

definition api_exception :: "cls \<Rightarrow> int \<Rightarrow> string \<Rightarrow> string \<Rightarrow> exc" where
  "api_exception C sc dc s =
     (plain_exception (mro_of C) s)
       \<lparr>detail := Some (Value (PStr s)), str_detail := Value s,
        status_code := Some (Value sc), default_code := Some (Value dc)\<rparr>"

text \<open>\<open>NotFound(detail=s)\<close> of \<open>rest_framework.exceptions\<close>, for a string \<open>s\<close>.\<close>

definition NotFound_new :: "string \<Rightarrow> exc" where
  "NotFound_new s = api_exception NotFound HTTP_404_NOT_FOUND ''not_found'' s"


text \<open>
  \<open>ProtectedError(msg, protected_objects)\<close> stores its second argument as
  \<open>protected_objects\<close>; \<open>RestrictedError(msg, restricted_objects)\<close> stores it as
  \<open>restricted_objects\<close>, which the handler never reads, and has no
  \<open>protected_objects\<close>.
\<close>

definition ProtectedError_new :: "string \<Rightarrow> objects \<Rightarrow> exc" where
  "ProtectedError_new s objs =
     (plain_exception (mro_of ProtectedError) s)
       \<lparr>protected_objects := Some (Value objs)\<rparr>"

definition RestrictedError_new :: "string \<Rightarrow> exc" where
  "RestrictedError_new s = plain_exception (mro_of RestrictedError) s"

text \<open>
  Django's \<open>ValidationError\<close> keeps its messages with their parameters and formats them
  (\<open>message % params\<close>) whenever \<open>message_dict\<close>, \<open>messages\<close> or \<open>str(exc)\<close> is
  evaluated; \<open>formatted\<close> is what the formatting gives. Built from a dictionary the
  exception has \<open>message_dict\<close> and \<open>messages\<close> (all the messages, field after field);
  built from a list or from one message it has \<open>messages\<close> only. \<open>s\<close> is the text of
  the exception when the formatting succeeds.
\<close>

definition DjangoValidationError_dict ::
  "(string \<times> string list) list outcome \<Rightarrow> string \<Rightarrow> exc" where
  "DjangoValidationError_dict formatted s =
     (plain_exception (mro_of DjangoValidationError) s)
       \<lparr>str_exc := map_outcome (\<lambda>md. s) formatted,
        message_dict := Some formatted,
        messages := Some (map_outcome (\<lambda>md. concat (map snd md)) formatted)\<rparr>"

definition DjangoValidationError_list :: "string list outcome \<Rightarrow> string \<Rightarrow> exc" where
  "DjangoValidationError_list formatted s =
     (plain_exception (mro_of DjangoValidationError) s)
       \<lparr>str_exc := map_outcome (\<lambda>ms. s) formatted, messages := Some formatted\<rparr>"


section \<open>Operations with effects\<close>

text \<open>
  A method that may change the world (the database, caches, the log of a hook) and
  either returns or raises: it takes the world and gives the outcome with the world
  after it. What a method did before it raised stays done.
\<close>

type_synonym ('w, 'a) action = "'w \<Rightarrow> (exc + 'a) \<times> 'w"

definition returns :: "'a \<Rightarrow> ('w, 'a) action" where
  "returns x = (\<lambda>w. (Inr x, w))"

definition raise :: "exc \<Rightarrow> ('w, 'a) action" where
  "raise e = (\<lambda>w. (Inl e, w))"

text \<open>One statement after another: the second runs only when the first returned.\<close>

definition then_do :: "('w, 'a) action \<Rightarrow> ('a \<Rightarrow> ('w, 'b) action) \<Rightarrow> ('w, 'b) action" where
  "then_do m f = (\<lambda>w. case m w of (Inl e, w') \<Rightarrow> (Inl e, w') | (Inr x, w') \<Rightarrow> f x w')"

text \<open>\<open>try: m  except Exception as exc: h exc\<close>.\<close>

definition try_except :: "('w, 'a) action \<Rightarrow> (exc \<Rightarrow> ('w, 'a) action) \<Rightarrow> ('w, 'a) action" where
  "try_except m h = (\<lambda>w. case m w of (Inl e, w') \<Rightarrow> h e w' | (Inr x, w') \<Rightarrow> (Inr x, w'))"

text \<open>
  The methods that the operations of the view set call: its own hooks, which a subclass
  overrides, and the collaborators (\<open>serializer.save\<close>, \<open>instance.delete\<close>, the
  methods of the parent class reached through \<open>super()\<close>, \<open>get_serializer\<close>, the
  property \<open>serializer.data\<close>).
\<close>

datatype call =
    Before_perform_create | Get_create_kwargs | After_perform_create
  | Before_perform_update | Get_update_kwargs | After_perform_update
  | Serializer_save
  | Before_perform_destroy | Instance_delete | After_perform_destroy
  | Before_perform_list | Super_filter_queryset | After_perform_list
  | Super_get_queryset | Super_get_object
  | Before_perform_retrieve | Get_serializer | After_perform_retrieve | Serializer_data

text \<open>
  To speak of the order of the calls, an operation runs on the world together with a
  trace: calling a method appends \<open>Called\<close> to the trace, and \<open>Returned\<close> when the
  method returned rather than raised. The methods themselves see the world only.
\<close>

datatype event = Called call | Returned call

definition invoke :: "call \<Rightarrow> ('w, 'a) action \<Rightarrow> ('w \<times> event list, 'a) action" where
  "invoke c m =
     (\<lambda>(w, tr). case m w of
        (Inl e, w') \<Rightarrow> (Inl e, (w', tr @ [Called c]))
      | (Inr x, w') \<Rightarrow> (Inr x, (w', tr @ [Called c, Returned c])))"

section \<open>The view set\<close>

text \<open>
  \<open>self\<close>: the two flags, the hooks and the collaborators. \<open>'w\<close> is the world,
  \<open>'ser\<close> a serializer, \<open>'inst\<close> a model instance, \<open>'kw\<close> the keyword arguments for
  \<open>serializer.save\<close>, \<open>'qs\<close> a queryset.
\<close>

record ('w, 'ser, 'inst, 'kw, 'qs) viewset = config +
  before_perform_create :: "'ser \<Rightarrow> ('w, unit) action"
  get_create_kwargs :: "'ser \<Rightarrow> ('w, 'kw) action"
  after_perform_create :: "'inst \<Rightarrow> 'ser \<Rightarrow> ('w, unit) action"
  before_perform_update :: "'ser \<Rightarrow> ('w, unit) action"
  get_update_kwargs :: "'ser \<Rightarrow> ('w, 'kw) action"
  after_perform_update :: "'inst \<Rightarrow> 'ser \<Rightarrow> ('w, unit) action"
  before_perform_destroy :: "'inst \<Rightarrow> ('w, unit) action"
  after_perform_destroy :: "'inst \<Rightarrow> ('w, unit) action"
  before_perform_list :: "'qs \<Rightarrow> ('w, 'qs) action"
  after_perform_list :: "'qs \<Rightarrow> ('w, 'qs) action"
  before_perform_retrieve :: "'inst \<Rightarrow> ('w, unit) action"
  after_perform_retrieve :: "'inst \<Rightarrow> ('w, unit) action"
  serializer_save :: "'ser \<Rightarrow> 'kw \<Rightarrow> ('w, 'inst) action"
  instance_delete :: "'inst \<Rightarrow> ('w, unit) action"
  super_filter_queryset :: "'qs \<Rightarrow> ('w, 'qs) action"
  super_get_queryset :: "('w, 'qs) action"
  super_get_object :: "('w, 'inst) action"
  get_serializer :: "'inst \<Rightarrow> ('w, 'ser) action"
  serializer_data :: "'ser \<Rightarrow> ('w, pyval) action"

text \<open>
  \<open>get_queryset\<close> and \<open>get_object\<close>, the wrappers around the parent's methods. An
  exception raised inside an \<open>except\<close> clause, here by \<open>str(exc)\<close>, leaves the
  method in place of the one the clause was about to raise.
\<close>

definition get_queryset ::
  "('w, 'ser, 'inst, 'kw, 'qs) viewset \<Rightarrow> ('w \<times> event list, 'qs) action" where
  "get_queryset self =
     try_except (invoke Super_get_queryset (super_get_queryset self))
       (\<lambda>e. if isinstance e ObjectDoesNotExist then
              (case evaluate (str_exc e) of
                 Inl e' \<Rightarrow> raise e'
               | Inr s \<Rightarrow> raise (NotFound_new s))
            else raise e)"

definition get_object ::
  "('w, 'ser, 'inst, 'kw, 'qs) viewset \<Rightarrow> ('w \<times> event list, 'inst) action" where
  "get_object self =
     try_except (invoke Super_get_object (super_get_object self))
       (\<lambda>e. if isinstance e Http404 then raise (NotFound_new ''Object not found.'')
            else if isinstance e ObjectDoesNotExist then
              (case evaluate (str_exc e) of
                 Inl e' \<Rightarrow> raise e'
               | Inr s \<Rightarrow> raise (NotFound_new s))
            else raise e)"




text \<open>\<open>filter_queryset\<close>, the filtering step of the list operation.\<close>

definition filter_queryset ::
  "('w, 'ser, 'inst, 'kw, 'qs) viewset \<Rightarrow> 'qs \<Rightarrow> ('w \<times> event list, 'qs) action" where
  "filter_queryset self queryset =
     then_do (invoke Before_perform_list (before_perform_list self queryset)) (\<lambda>queryset.
     then_do (invoke Super_filter_queryset (super_filter_queryset self queryset)) (\<lambda>queryset.
     then_do (invoke After_perform_list (after_perform_list self queryset)) (\<lambda>queryset.
     returns queryset)))"

text \<open>
  \<open>retrieve\<close>; \<open>serializer.data\<close> is evaluated after the after hook, and
  \<open>Response(serializer.data)\<close> has the status 200.
\<close>

definition retrieve ::
  "('w, 'ser, 'inst, 'kw, 'qs) viewset \<Rightarrow> ('w \<times> event list, response) action" where
  "retrieve self =
     then_do (get_object self) (\<lambda>instance.
     then_do (invoke Before_perform_retrieve (before_perform_retrieve self instance)) (\<lambda>_.
     then_do (invoke Get_serializer (get_serializer self instance)) (\<lambda>serializer.
     then_do (invoke After_perform_retrieve (after_perform_retrieve self instance)) (\<lambda>_.
     then_do (invoke Serializer_data (serializer_data self serializer)) (\<lambda>d.
     returns \<lparr>data = d, status = HTTP_200_OK\<rparr>)))))"

text \<open>
  The view set of the base class: the hooks as \<open>BaseViewSet\<close> defines them (they do
  nothing, the list hooks return the queryset, the keyword arguments are empty), over
  given flags and collaborators.
\<close>

definition BaseViewSet ::
  "bool \<Rightarrow> bool \<Rightarrow> 'kw \<Rightarrow> ('ser \<Rightarrow> 'kw \<Rightarrow> ('w, 'inst) action) \<Rightarrow> ('inst \<Rightarrow> ('w, unit) action) \<Rightarrow>
   ('qs \<Rightarrow> ('w, 'qs) action) \<Rightarrow> ('w, 'qs) action \<Rightarrow> ('w, 'inst) action \<Rightarrow>
   ('inst \<Rightarrow> ('w, 'ser) action) \<Rightarrow> ('ser \<Rightarrow> ('w, pyval) action) \<Rightarrow>
   ('w, 'ser, 'inst, 'kw, 'qs) viewset" where
  "BaseViewSet log_requests safe_db_errors empty_kwargs save delete filter_qs get_qs get_obj
     get_ser ser_data =
     \<lparr>LOG_REQUESTS = log_requests, SAFE_DB_ERRORS = safe_db_errors,
      before_perform_create = (\<lambda>serializer. returns ()),
      get_create_kwargs = (\<lambda>serializer. returns empty_kwargs),
      after_perform_create = (\<lambda>instance serializer. returns ()),
      before_perform_update = (\<lambda>serializer. returns ()),
      get_update_kwargs = (\<lambda>serializer. returns empty_kwargs),
      after_perform_update = (\<lambda>instance serializer. returns ()),
      before_perform_destroy = (\<lambda>instance. returns ()),
      after_perform_destroy = (\<lambda>instance. returns ()),
      before_perform_list = (\<lambda>queryset. returns queryset),
      after_perform_list = (\<lambda>queryset. returns queryset),
      before_perform_retrieve = (\<lambda>instance. returns ()),
      after_perform_retrieve = (\<lambda>instance. returns ()),
      serializer_save = save, instance_delete = delete,
      super_filter_queryset = filter_qs, super_get_queryset = get_qs,
      super_get_object = get_obj, get_serializer = get_ser, serializer_data = ser_data\<rparr>"


section \<open>Sample values and properties of responses\<close>

text \<open>The flags as the class \<open>BaseViewSet\<close> sets them.\<close>

definition default_flags :: config where
  "default_flags = \<lparr>LOG_REQUESTS = False, SAFE_DB_ERRORS = True\<rparr>"

text \<open>
  An exception of one of the classes of \<open>django.db\<close>, built from its text.
\<close>

definition db_exception :: "cls \<Rightarrow> string \<Rightarrow> exc" where
  "db_exception C s =
     plain_exception (mro_of C) s"

text \<open>
  A view set over a world that counts the calls of its list hooks, with querysets that
  are lists of numbers: it overrides the two list hooks, the parent filters the even
  numbers, and the parent's \<open>get_object\<close> finds nothing.
\<close>

definition sample_viewset :: "(nat, string, string, unit, nat list) viewset" where
  "sample_viewset =
     (BaseViewSet False True ()
        (\<lambda>serializer kwargs. returns serializer)
        (\<lambda>instance. returns ())
        (\<lambda>queryset. returns (filter even queryset))
        (returns [1, 2, 3, 4, 5])
        (raise (plain_exception [Http404] ''No Article matches the given query.''))
        (\<lambda>instance. returns instance)
        (\<lambda>serializer. returns (PStr serializer)))
       \<lparr>before_perform_list := (\<lambda>queryset w. (Inr (map Suc queryset), Suc w)),
        after_perform_list := (\<lambda>queryset w. (Inr (take 2 queryset), Suc w))\<rparr>"




section \<open>Reading the trace of an operation\<close>




text \<open>
  An error response with no extra key: the body
  \<open>{"error": {"code": code, "message": message, "details": details}}\<close> and a status.
\<close>

definition error_body :: "string \<Rightarrow> string \<Rightarrow> pyval \<Rightarrow> int \<Rightarrow> response" where
  "error_body code message details st =
     \<lparr>data = PDict [(''error'', PDict [(''code'', PStr code), (''message'', PStr message),
                                       (''details'', details)])],
      status = st\<rparr>"

section \<open>Facts about the classifier\<close>

lemma find_before:
  "find P xs = Some x \<Longrightarrow> P x \<and> (\<forall>y \<in> set (takeWhile (\<lambda>y. y \<noteq> x) xs). \<not> P y)"
proof (induct xs)
  case Nil
  then show ?case by simp
next
  case (Cons a xs)
  show ?case
  proof (cases "P a")
    case True
    with Cons.prems have "x = a" by simp
    with True show ?thesis by simp
  next
    case False
    with Cons.prems have f: "find P xs = Some x" by simp
    from Cons.hyps[OF f] have px: "P x"
      and nb: "\<forall>y\<in>set (takeWhile (\<lambda>y. y \<noteq> x) xs). \<not> P y" by auto
    from px False have "a \<noteq> x" by auto
    with px nb False show ?thesis by simp
  qed
qed

lemma first_match_Some:
  "first_match e = Some C \<Longrightarrow>
     isinstance e C \<and> (\<forall>D \<in> set (takeWhile (\<lambda>D. D \<noteq> C) named_classes). \<not> isinstance e D)"
  unfolding first_match_def by (rule find_before)

lemma first_match_None:
  "first_match e = None \<Longrightarrow> C \<in> set named_classes \<Longrightarrow> \<not> isinstance e C"
  by (auto simp: first_match_def find_None_iff)

lemma error_response_no_extra:
  "error_response m c s errs None =
     \<lparr>data = PDict [(''error'', PDict [(''code'', PStr c), (''message'', PStr m),
                                       (''details'', errs)])], status = s\<rparr>"
  by (simp add: error_response_def)

lemma error_response_empty_extra:
  "error_response m c s errs (Some []) =
     \<lparr>data = PDict [(''error'', PDict [(''code'', PStr c), (''message'', PStr m),
                                       (''details'', errs)])], status = s\<rparr>"
  by (simp add: error_response_def)


lemma error_response_error_body:
  "error_response m c s errs None = error_body c m errs s"
  "error_response m c s errs (Some []) = error_body c m errs s"
  by (simp_all add: error_body_def error_response_no_extra error_response_empty_extra)


lemma str_each_Value: "str_each (map Value ts) = Inr ts"
  by (induct ts) (simp_all add: and_then_def evaluate_def)

text \<open>The branch that an exception of each kind takes.\<close>

lemma branch_unknown:
  assumes "first_match e = None"
  shows "handle_exception self e =
     Inr (error_response ''An unexpected internal error occurred.'' ''internal_server_error''
            HTTP_500_INTERNAL_SERVER_ERROR PNone None)"
  using assms by (simp add: handle_exception_def first_match_None named_classes_def)

lemma branch_NotFound:
  assumes "first_match e = Some NotFound"
  shows "handle_exception self e =
     and_then (getattr ''detail'' (detail e)) (\<lambda>d.
     and_then (evaluate (str_detail e)) (\<lambda>message.
     Inr (error_response message ''not_found'' HTTP_404_NOT_FOUND PNone None)))"
  using first_match_Some[OF assms] by (simp add: handle_exception_def named_classes_def)


lemma branch_DjangoValidationError:
  assumes "first_match e = Some DjangoValidationError"
  shows "handle_exception self e =
     and_then
       (and_then (hasattr (message_dict e)) (\<lambda>has.
          if has then
            and_then (getattr ''message_dict'' (message_dict e)) (\<lambda>md.
            Inr (PDict (map (\<lambda>(field, ms). (field, PList (map PStr ms))) md)))
          else
            and_then (getattr ''messages'' (messages e)) (\<lambda>ms.
            Inr (PDict [(''non_field_errors'', PList (map PStr ms))]))))
       (\<lambda>errors.
     Inr (error_response ''Invalid input.'' ''validation_error'' HTTP_400_BAD_REQUEST
            errors None))"
  using first_match_Some[OF assms] by (simp add: handle_exception_def named_classes_def)

lemma branch_ProtectedError:
  assumes "first_match e = Some ProtectedError \<or> first_match e = Some RestrictedError"
  shows "handle_exception self e =
     and_then
       (and_then (hasattr (protected_objects e)) (\<lambda>has.
          if has then
            and_then (getattr ''protected_objects'' (protected_objects e)) (\<lambda>v.
            case v of
              NoneValue \<Rightarrow> Inl (TypeError ''NoneType object is not iterable'')
            | Objects objs \<Rightarrow> str_each objs)
          else Inr []))
       (\<lambda>dependents.
     Inr (error_response
            ''Cannot delete this object because it is referenced by other records.''
            ''protected_object'' HTTP_409_CONFLICT
            (PDict [(''dependents'', PList (map PStr (take 10 dependents)))]) None))"
  using assms
proof
  assume "first_match e = Some ProtectedError"
  from first_match_Some[OF this] show ?thesis
    by (simp add: handle_exception_def named_classes_def)
next
  assume "first_match e = Some RestrictedError"
  from first_match_Some[OF this] show ?thesis
    by (simp add: handle_exception_def named_classes_def)
qed

lemma branch_IntegrityError:
  assumes "first_match e = Some IntegrityError"
  shows "handle_exception self e =
     and_then
       (if SAFE_DB_ERRORS self then Inr ''A database integrity constraint was violated.''
        else evaluate (str_exc e))
       (\<lambda>msg. Inr (error_response msg ''integrity_error'' HTTP_409_CONFLICT PNone None))"
  using first_match_Some[OF assms] by (simp add: handle_exception_def named_classes_def)

lemma branch_DataError:
  assumes "first_match e = Some DataError"
  shows "handle_exception self e =
     and_then
       (if SAFE_DB_ERRORS self
        then Inr ''The provided data is invalid for the database schema.''
        else evaluate (str_exc e))
       (\<lambda>msg. Inr (error_response msg ''data_error'' HTTP_400_BAD_REQUEST PNone None))"
  using first_match_Some[OF assms] by (simp add: handle_exception_def named_classes_def)

lemma branch_OperationalError:
  assumes "first_match e = Some OperationalError"
  shows "handle_exception self e =
     Inr (error_response ''A database operational error occurred. Please try again later.''
          ''db_operational_error'' HTTP_503_SERVICE_UNAVAILABLE PNone None)"
  using first_match_Some[OF assms] by (simp add: handle_exception_def named_classes_def)

lemma branch_DatabaseError:
  assumes "first_match e = Some ProgrammingError \<or> first_match e = Some DatabaseError"
  shows "handle_exception self e =
     Inr (error_response ''An unexpected database error occurred.'' ''db_error''
          HTTP_500_INTERNAL_SERVER_ERROR PNone None)"
  using assms
proof
  assume "first_match e = Some ProgrammingError"
  from first_match_Some[OF this] show ?thesis
    by (simp add: handle_exception_def named_classes_def)
next
  assume "first_match e = Some DatabaseError"
  from first_match_Some[OF this] show ?thesis
    by (simp add: handle_exception_def named_classes_def)
qed









section \<open>The classifier: claims\<close>

text \<open>
  C1. The handler does not return a response for every exception. A Django
  \<open>ValidationError\<close> built from one message whose parameters do not fit it
  (\<open>ValidationError('bad %(v)s', params={'y': 1})\<close>) has no \<open>message_dict\<close>, and
  reading its \<open>messages\<close> formats the message and raises \<open>KeyError\<close>; the handler
  reads \<open>exc.messages\<close> unguarded and leaves by that \<open>KeyError\<close>.
\<close>

theorem handle_exception_raises_on_unformattable_message:
  "handle_exception default_flags
     (DjangoValidationError_list (Raising [OtherClass ''KeyError''] ''v'') ''bad'') =
   Inl (plain_exception [OtherClass ''KeyError''] ''v'')"
  by (simp add: handle_exception_def DjangoValidationError_list_def plain_exception_def mro_of_def
        isinstance_def hasattr_def getattr_def evaluate_def and_then_def)

text \<open>
  C2. An exception that is an instance of none of the classes the handler names gets the
  status 500, the code \<open>internal_server_error\<close> and one fixed message, whatever the
  exception carries and for both values of \<open>SAFE_DB_ERRORS\<close>.
\<close>

theorem unknown_failure_is_internal_server_error:
  assumes "first_match e = None"
  shows "handle_exception (self\<lparr>SAFE_DB_ERRORS := safe\<rparr>) e =
           Inr (error_body ''internal_server_error''
                  ''An unexpected internal error occurred.'' PNone
                  HTTP_500_INTERNAL_SERVER_ERROR)"
  using branch_unknown[OF assms] by (simp add: error_response_error_body)

theorem unknown_failure_is_internal_server_error_witness:
  "first_match (plain_exception [OtherClass ''ValueError''] ''password=hunter2'') = None \<and>
   handle_exception (default_flags\<lparr>SAFE_DB_ERRORS := False\<rparr>)
       (plain_exception [OtherClass ''ValueError''] ''password=hunter2'') =
     Inr (error_body ''internal_server_error''
            ''An unexpected internal error occurred.'' PNone
            HTTP_500_INTERNAL_SERVER_ERROR)"
proof -
  have h: "first_match (plain_exception [OtherClass ''ValueError''] ''password=hunter2'') = None"
    by (simp add: first_match_def named_classes_def isinstance_def plain_exception_def)
  from h unknown_failure_is_internal_server_error[OF h, where self = default_flags and safe = False]
  show ?thesis by simp
qed

text \<open>
  C5, as the claim states it, fails: for a \<open>ProtectedError\<close> with one protected object
  the response has the status 409 and the code \<open>protected_object\<close>, but the object
  under \<open>"error"\<close>, into which extra keys are merged, has no key \<open>"dependents"\<close>; the
  list is under \<open>"details"\<close>.
\<close>

theorem dependents_under_extra_counterexample:
  "handle_exception default_flags
       (ProtectedError_new ''blocked'' (Objects [Value ''Comment 7''])) =
     Inr (error_body ''protected_object''
            ''Cannot delete this object because it is referenced by other records.''
            (PDict [(''dependents'', PList [PStr ''Comment 7''])]) HTTP_409_CONFLICT) \<and>
   error_field ''dependents''
     (error_body ''protected_object''
        ''Cannot delete this object because it is referenced by other records.''
        (PDict [(''dependents'', PList [PStr ''Comment 7''])]) HTTP_409_CONFLICT) = None"
proof -
  have h: "first_match (ProtectedError_new ''blocked'' (Objects [Value ''Comment 7'']))
             = Some ProtectedError"
    by (simp add: first_match_def named_classes_def isinstance_def ProtectedError_new_def
          plain_exception_def mro_of_def)
  from branch_ProtectedError[OF disjI1[OF h], where self = default_flags] show ?thesis
    by (simp add: error_response_error_body ProtectedError_new_def plain_exception_def mro_of_def
          hasattr_def getattr_def evaluate_def and_then_def
          error_body_def error_field_def body_field_def)
qed

text \<open>
  C5, amended. A referential-block failure gets the status 409, the code
  \<open>protected_object\<close> and, under \<open>"details"\<close>, the mapping \<open>{"dependents": list}\<close>
  with a list of ten entries at most; no extra key is merged. For a \<open>ProtectedError\<close>
  whose \<open>protected_objects\<close> is a collection of objects with the texts \<open>texts\<close>, in
  the order of iteration, the list is the first ten at most of \<open>texts\<close>. What the list
  holds for a \<open>RestrictedError\<close>, which has no \<open>protected_objects\<close>, is left open.
\<close>

theorem referential_block_response:
  assumes "first_match e = Some ProtectedError \<and>
             protected_objects e = Some (Value (Objects objs)) \<and> str_each objs = Inr texts
           \<or> first_match e = Some RestrictedError \<and> protected_objects e = None"
  shows "\<exists>ds. handle_exception self e =
                Inr (error_body ''protected_object''
                       ''Cannot delete this object because it is referenced by other records.''
                       (PDict [(''dependents'', PList ds)]) HTTP_409_CONFLICT) \<and>
              length ds \<le> 10 \<and>
              (first_match e = Some ProtectedError \<longrightarrow> ds = map PStr (take 10 texts))"
  using assms
proof
  assume a: "first_match e = Some ProtectedError \<and>
             protected_objects e = Some (Value (Objects objs)) \<and> str_each objs = Inr texts"
  then have "first_match e = Some ProtectedError \<or> first_match e = Some RestrictedError"
    by simp
  from branch_ProtectedError[OF this, where self = self] a
  have "handle_exception self e =
          Inr (error_body ''protected_object''
                 ''Cannot delete this object because it is referenced by other records.''
                 (PDict [(''dependents'', PList (map PStr (take 10 texts)))])
                 HTTP_409_CONFLICT)"
    by (simp add: hasattr_def getattr_def evaluate_def and_then_def
          error_response_error_body)
  then show ?thesis by (intro exI[of _ "map PStr (take 10 texts)"]) simp
next
  assume a: "first_match e = Some RestrictedError \<and> protected_objects e = None"
  then have "first_match e = Some ProtectedError \<or> first_match e = Some RestrictedError"
    by simp
  from branch_ProtectedError[OF this, where self = self] a
  have "handle_exception self e =
          Inr (error_body ''protected_object''
                 ''Cannot delete this object because it is referenced by other records.''
                 (PDict [(''dependents'', PList [])]) HTTP_409_CONFLICT)"
    by (simp add: hasattr_def and_then_def error_response_error_body)
  with a show ?thesis by (intro exI[of _ "[]"]) simp
qed

theorem referential_block_response_witness:
  "(first_match (ProtectedError_new ''blocked'' (Objects (map Value
       [''c1'', ''c2'', ''c3'', ''c4'', ''c5'', ''c6'', ''c7'', ''c8'', ''c9'', ''c10'',
        ''c11'', ''c12'']))) = Some ProtectedError \<and>
    protected_objects (ProtectedError_new ''blocked'' (Objects (map Value
       [''c1'', ''c2'', ''c3'', ''c4'', ''c5'', ''c6'', ''c7'', ''c8'', ''c9'', ''c10'',
        ''c11'', ''c12'']))) =
      Some (Value (Objects (map Value
       [''c1'', ''c2'', ''c3'', ''c4'', ''c5'', ''c6'', ''c7'', ''c8'', ''c9'', ''c10'',
        ''c11'', ''c12'']))) \<and>
    str_each (map Value
       [''c1'', ''c2'', ''c3'', ''c4'', ''c5'', ''c6'', ''c7'', ''c8'', ''c9'', ''c10'',
        ''c11'', ''c12'']) =
      Inr [''c1'', ''c2'', ''c3'', ''c4'', ''c5'', ''c6'', ''c7'', ''c8'', ''c9'', ''c10'',
        ''c11'', ''c12'']) \<and>
   handle_exception default_flags (ProtectedError_new ''blocked'' (Objects (map Value
       [''c1'', ''c2'', ''c3'', ''c4'', ''c5'', ''c6'', ''c7'', ''c8'', ''c9'', ''c10'',
        ''c11'', ''c12'']))) =
     Inr (error_body ''protected_object''
            ''Cannot delete this object because it is referenced by other records.''
            (PDict [(''dependents'', PList (map PStr
               [''c1'', ''c2'', ''c3'', ''c4'', ''c5'', ''c6'', ''c7'', ''c8'', ''c9'',
                ''c10'']))])
            HTTP_409_CONFLICT) \<and>
   first_match (RestrictedError_new ''blocked'') = Some RestrictedError \<and>
   protected_objects (RestrictedError_new ''blocked'') = None \<and>
   (\<exists>ds. handle_exception default_flags (RestrictedError_new ''blocked'') =
           Inr (error_body ''protected_object''
                  ''Cannot delete this object because it is referenced by other records.''
                  (PDict [(''dependents'', PList ds)]) HTTP_409_CONFLICT) \<and>
         length ds \<le> 10)"
proof -
  let ?texts = "[''c1'', ''c2'', ''c3'', ''c4'', ''c5'', ''c6'', ''c7'', ''c8'', ''c9'', ''c10'',
        ''c11'', ''c12'']"
  let ?e = "ProtectedError_new ''blocked'' (Objects (map Value ?texts))"
  have h: "first_match ?e = Some ProtectedError"
    by (simp add: first_match_def named_classes_def isinstance_def ProtectedError_new_def
          plain_exception_def mro_of_def)
  have p: "protected_objects ?e = Some (Value (Objects (map Value ?texts)))"
    by (simp add: ProtectedError_new_def plain_exception_def mro_of_def)
  have s: "str_each (map Value ?texts) = Inr ?texts"
    by (rule str_each_Value)
  have t: "take 10 ?texts =
      [''c1'', ''c2'', ''c3'', ''c4'', ''c5'', ''c6'', ''c7'', ''c8'', ''c9'', ''c10'']"
    by simp
  from referential_block_response[OF disjI1[OF conjI[OF h conjI[OF p s]]],
         where self = default_flags]
  obtain ds where r: "handle_exception default_flags ?e =
                Inr (error_body ''protected_object''
                       ''Cannot delete this object because it is referenced by other records.''
                       (PDict [(''dependents'', PList ds)]) HTTP_409_CONFLICT)"
    and d: "first_match ?e = Some ProtectedError \<longrightarrow> ds = map PStr (take 10 ?texts)"
    by blast
  from d h have "ds = map PStr (take 10 ?texts)" by blast
  with r t have "handle_exception default_flags ?e =
     Inr (error_body ''protected_object''
            ''Cannot delete this object because it is referenced by other records.''
            (PDict [(''dependents'', PList (map PStr
               [''c1'', ''c2'', ''c3'', ''c4'', ''c5'', ''c6'', ''c7'', ''c8'', ''c9'',
                ''c10'']))])
            HTTP_409_CONFLICT)" by simp
  note protected = this
  have h2: "first_match (RestrictedError_new ''blocked'') = Some RestrictedError"
    by (simp add: first_match_def named_classes_def isinstance_def RestrictedError_new_def
          plain_exception_def mro_of_def)
  have p2: "protected_objects (RestrictedError_new ''blocked'') = None"
    by (simp add: RestrictedError_new_def plain_exception_def)
  from referential_block_response[OF disjI2[OF conjI[OF h2 p2]], where self = default_flags]
  have "\<exists>ds. handle_exception default_flags (RestrictedError_new ''blocked'') =
           Inr (error_body ''protected_object''
                  ''Cannot delete this object because it is referenced by other records.''
                  (PDict [(''dependents'', PList ds)]) HTTP_409_CONFLICT) \<and>
         length ds \<le> 10"
    by blast
  with h p s protected h2 p2 show ?thesis by blast
qed

text \<open>
  C6. An integrity violation gets 409 and \<open>integrity_error\<close>, invalid data gets 400 and
  \<open>data_error\<close>, each with a fixed message when \<open>SAFE_DB_ERRORS\<close> is set and with the
  text \<open>s\<close> of the exception, \<open>str(exc)\<close>, when it is not; an operational error gets
  503 and \<open>db_operational_error\<close>, any other database error 500 and \<open>db_error\<close>, each
  with a fixed message for both values of the flag.
\<close>

theorem storage_fault_messages:
  "(first_match e = Some IntegrityError \<and> SAFE_DB_ERRORS self \<longrightarrow>
      handle_exception self e =
        Inr (error_body ''integrity_error'' ''A database integrity constraint was violated.''
               PNone HTTP_409_CONFLICT)) \<and>
   (first_match e = Some IntegrityError \<and> \<not> SAFE_DB_ERRORS self \<and> str_exc e = Value s \<longrightarrow>
      handle_exception self e =
        Inr (error_body ''integrity_error'' s PNone HTTP_409_CONFLICT)) \<and>
   (first_match e = Some DataError \<and> SAFE_DB_ERRORS self \<longrightarrow>
      handle_exception self e =
        Inr (error_body ''data_error''
               ''The provided data is invalid for the database schema.''
               PNone HTTP_400_BAD_REQUEST)) \<and>
   (first_match e = Some DataError \<and> \<not> SAFE_DB_ERRORS self \<and> str_exc e = Value s \<longrightarrow>
      handle_exception self e =
        Inr (error_body ''data_error'' s PNone HTTP_400_BAD_REQUEST)) \<and>
   (first_match e = Some OperationalError \<longrightarrow>
      handle_exception self e =
        Inr (error_body ''db_operational_error''
               ''A database operational error occurred. Please try again later.''
               PNone HTTP_503_SERVICE_UNAVAILABLE)) \<and>
   (first_match e = Some ProgrammingError \<or> first_match e = Some DatabaseError \<longrightarrow>
      handle_exception self e =
        Inr (error_body ''db_error'' ''An unexpected database error occurred.''
               PNone HTTP_500_INTERNAL_SERVER_ERROR))"
proof (intro conjI impI)
  assume a: "first_match e = Some IntegrityError \<and> SAFE_DB_ERRORS self"
  then have "first_match e = Some IntegrityError" by simp
  from branch_IntegrityError[OF this, where self = self] a
  show "handle_exception self e =
        Inr (error_body ''integrity_error'' ''A database integrity constraint was violated.''
               PNone HTTP_409_CONFLICT)"
    by (simp add: and_then_def error_response_error_body)
next
  assume a: "first_match e = Some IntegrityError \<and> \<not> SAFE_DB_ERRORS self \<and> str_exc e = Value s"
  then have "first_match e = Some IntegrityError" by simp
  from branch_IntegrityError[OF this, where self = self] a
  show "handle_exception self e =
        Inr (error_body ''integrity_error'' s PNone HTTP_409_CONFLICT)"
    by (simp add: and_then_def evaluate_def error_response_error_body)
next
  assume a: "first_match e = Some DataError \<and> SAFE_DB_ERRORS self"
  then have "first_match e = Some DataError" by simp
  from branch_DataError[OF this, where self = self] a
  show "handle_exception self e =
        Inr (error_body ''data_error''
               ''The provided data is invalid for the database schema.''
               PNone HTTP_400_BAD_REQUEST)"
    by (simp add: and_then_def error_response_error_body)
next
  assume a: "first_match e = Some DataError \<and> \<not> SAFE_DB_ERRORS self \<and> str_exc e = Value s"
  then have "first_match e = Some DataError" by simp
  from branch_DataError[OF this, where self = self] a
  show "handle_exception self e =
        Inr (error_body ''data_error'' s PNone HTTP_400_BAD_REQUEST)"
    by (simp add: and_then_def evaluate_def error_response_error_body)
next
  assume "first_match e = Some OperationalError"
  from branch_OperationalError[OF this, where self = self] show "handle_exception self e =
        Inr (error_body ''db_operational_error''
               ''A database operational error occurred. Please try again later.''
               PNone HTTP_503_SERVICE_UNAVAILABLE)"
    by (simp add: error_response_error_body)
next
  assume "first_match e = Some ProgrammingError \<or> first_match e = Some DatabaseError"
  from branch_DatabaseError[OF this, where self = self] show "handle_exception self e =
        Inr (error_body ''db_error'' ''An unexpected database error occurred.''
               PNone HTTP_500_INTERNAL_SERVER_ERROR)"
    by (simp add: error_response_error_body)
qed

theorem storage_fault_messages_witness:
  "first_match (db_exception IntegrityError ''duplicate key users_email_key'')
     = Some IntegrityError \<and>
   SAFE_DB_ERRORS default_flags \<and>
   \<not> SAFE_DB_ERRORS (default_flags\<lparr>SAFE_DB_ERRORS := False\<rparr>) \<and>
   str_exc (db_exception IntegrityError ''duplicate key users_email_key'')
     = Value ''duplicate key users_email_key'' \<and>
   handle_exception default_flags (db_exception IntegrityError ''duplicate key users_email_key'')
     = Inr (error_body ''integrity_error'' ''A database integrity constraint was violated.''
              PNone HTTP_409_CONFLICT) \<and>
   handle_exception (default_flags\<lparr>SAFE_DB_ERRORS := False\<rparr>)
       (db_exception IntegrityError ''duplicate key users_email_key'')
     = Inr (error_body ''integrity_error'' ''duplicate key users_email_key''
              PNone HTTP_409_CONFLICT) \<and>
   first_match (db_exception DataError ''value too long'') = Some DataError \<and>
   str_exc (db_exception DataError ''value too long'') = Value ''value too long'' \<and>
   handle_exception default_flags (db_exception DataError ''value too long'')
     = Inr (error_body ''data_error''
              ''The provided data is invalid for the database schema.''
              PNone HTTP_400_BAD_REQUEST) \<and>
   handle_exception (default_flags\<lparr>SAFE_DB_ERRORS := False\<rparr>)
       (db_exception DataError ''value too long'')
     = Inr (error_body ''data_error'' ''value too long'' PNone HTTP_400_BAD_REQUEST) \<and>
   first_match (db_exception OperationalError ''connection refused'') = Some OperationalError \<and>
   handle_exception (default_flags\<lparr>SAFE_DB_ERRORS := False\<rparr>)
       (db_exception OperationalError ''connection refused'')
     = Inr (error_body ''db_operational_error''
              ''A database operational error occurred. Please try again later.''
              PNone HTTP_503_SERVICE_UNAVAILABLE) \<and>
   (first_match (db_exception DatabaseError ''relation does not exist'')
      = Some ProgrammingError \<or>
    first_match (db_exception DatabaseError ''relation does not exist'')
      = Some DatabaseError) \<and>
   handle_exception (default_flags\<lparr>SAFE_DB_ERRORS := False\<rparr>)
       (db_exception DatabaseError ''relation does not exist'')
     = Inr (error_body ''db_error'' ''An unexpected database error occurred.''
              PNone HTTP_500_INTERNAL_SERVER_ERROR)"
proof -
  let ?off = "default_flags\<lparr>SAFE_DB_ERRORS := False\<rparr>"
  let ?i = "db_exception IntegrityError ''duplicate key users_email_key''"
  let ?d = "db_exception DataError ''value too long''"
  let ?o = "db_exception OperationalError ''connection refused''"
  let ?b = "db_exception DatabaseError ''relation does not exist''"
  have h1: "first_match ?i = Some IntegrityError"
    and h2: "first_match ?d = Some DataError"
    and h3: "first_match ?o = Some OperationalError"
    and h4: "first_match ?b = Some DatabaseError"
    by (simp_all add: first_match_def named_classes_def isinstance_def db_exception_def
          plain_exception_def mro_of_def)
  have s1: "str_exc ?i = Value ''duplicate key users_email_key''"
    and s2: "str_exc ?d = Value ''value too long''"
    by (simp_all add: db_exception_def plain_exception_def mro_of_def)
  have f1: "SAFE_DB_ERRORS default_flags" and f2: "\<not> SAFE_DB_ERRORS ?off"
    by (simp_all add: default_flags_def)
  note t = storage_fault_messages
  from t[where e = ?i and self = default_flags] h1 f1
  have r1: "handle_exception default_flags ?i
     = Inr (error_body ''integrity_error'' ''A database integrity constraint was violated.''
              PNone HTTP_409_CONFLICT)" by blast
  from t[where e = ?i and self = ?off and s = "''duplicate key users_email_key''"] h1 f2 s1
  have r2: "handle_exception ?off ?i
     = Inr (error_body ''integrity_error'' ''duplicate key users_email_key''
              PNone HTTP_409_CONFLICT)" by blast
  from t[where e = ?d and self = default_flags] h2 f1
  have r3: "handle_exception default_flags ?d
     = Inr (error_body ''data_error''
              ''The provided data is invalid for the database schema.''
              PNone HTTP_400_BAD_REQUEST)" by blast
  from t[where e = ?d and self = ?off and s = "''value too long''"] h2 f2 s2
  have r4: "handle_exception ?off ?d
     = Inr (error_body ''data_error'' ''value too long'' PNone HTTP_400_BAD_REQUEST)" by blast
  from t[where e = ?o and self = ?off] h3
  have r5: "handle_exception ?off ?o
     = Inr (error_body ''db_operational_error''
              ''A database operational error occurred. Please try again later.''
              PNone HTTP_503_SERVICE_UNAVAILABLE)" by blast
  from t[where e = ?b and self = ?off] h4
  have r6: "handle_exception ?off ?b
     = Inr (error_body ''db_error'' ''An unexpected database error occurred.''
              PNone HTTP_500_INTERNAL_SERVER_ERROR)" by blast
  from h1 h2 h3 h4 s1 s2 f1 f2 r1 r2 r3 r4 r5 r6 show ?thesis by blast
qed

text \<open>
  C8. The success builder returns the envelope \<open>{"message": m, "data": d}\<close>, and the
  value under \<open>"data"\<close> is the payload it was given.
\<close>

theorem success_response_preserves_data:
  "success_response d m st =
     \<lparr>data = PDict [(''message'', PStr m), (''data'', d)], status = st\<rparr> \<and>
   body_field ''data'' (success_response d m st) = Some d \<and>
   body_field ''message'' (success_response d m st) = Some (PStr m)"
  by (simp add: success_response_def body_field_def)

text \<open>
  C9. The handler does not return 400 for every Django \<open>ValidationError\<close>. For one built
  from a dictionary with a message whose parameters do not fit it
  (\<open>ValidationError({'title': ValidationError('bad %(v)s', params={'y': 1})})\<close>),
  evaluating the property \<open>message_dict\<close> formats the message and raises \<open>KeyError\<close>,
  which is no \<open>AttributeError\<close> and so comes out of \<open>hasattr(exc, "message_dict")\<close>;
  the handler leaves by that \<open>KeyError\<close>.
\<close>

theorem django_validation_raises_on_unformattable_message_dict:
  "handle_exception default_flags
     (DjangoValidationError_dict (Raising [OtherClass ''KeyError''] ''v'') ''invalid'') =
   Inl (plain_exception [OtherClass ''KeyError''] ''v'')"
proof -
  have "first_match
          (DjangoValidationError_dict (Raising [OtherClass ''KeyError''] ''v'') ''invalid'')
        = Some DjangoValidationError"
    by (simp add: first_match_def named_classes_def isinstance_def
          DjangoValidationError_dict_def plain_exception_def mro_of_def)
  from branch_DjangoValidationError[OF this, where self = default_flags] show ?thesis
    by (simp add: DjangoValidationError_dict_def plain_exception_def mro_of_def hasattr_def
          and_then_def)
qed



section \<open>The operations: claims\<close>








text \<open>
  C4. When the parent's \<open>get_object\<close> raises \<open>Http404\<close>, or an
  \<open>ObjectDoesNotExist\<close> with the text \<open>s\<close>, the wrapper \<open>get_object\<close> raises
  \<open>NotFound\<close> in its place, with the detail \<open>Object not found.\<close> in the first case and
  \<open>s\<close> in the second, nothing else having been called; \<open>retrieve\<close> leaves by the same
  exception before any of its hooks; and the handler answers that exception with 404,
  the code \<open>not_found\<close> and the detail as message.
\<close>

theorem missing_object_is_not_found:
  assumes "super_get_object self w = (Inl e, w')"
    and "isinstance e Http404 \<and> s = ''Object not found.'' \<or>
         \<not> isinstance e Http404 \<and> isinstance e ObjectDoesNotExist \<and> str_exc e = Value s"
  shows "get_object self (w, tr) =
           (Inl (NotFound_new s), (w', tr @ [Called Super_get_object])) \<and>
         retrieve self (w, tr) =
           (Inl (NotFound_new s), (w', tr @ [Called Super_get_object])) \<and>
         handle_exception self (NotFound_new s) =
           Inr (error_body ''not_found'' s PNone HTTP_404_NOT_FOUND)"
proof (intro conjI)
  from assms show g: "get_object self (w, tr) =
           (Inl (NotFound_new s), (w', tr @ [Called Super_get_object]))"
    by (auto simp: get_object_def try_except_def invoke_def raise_def evaluate_def)
  then show "retrieve self (w, tr) =
           (Inl (NotFound_new s), (w', tr @ [Called Super_get_object]))"
    by (simp add: retrieve_def then_do_def)
  have "first_match (NotFound_new s) = Some NotFound"
    by (simp add: first_match_def named_classes_def isinstance_def NotFound_new_def
          api_exception_def plain_exception_def mro_of_def)
  from branch_NotFound[OF this, where self = self]
  show "handle_exception self (NotFound_new s) =
           Inr (error_body ''not_found'' s PNone HTTP_404_NOT_FOUND)"
    by (simp add: NotFound_new_def api_exception_def plain_exception_def mro_of_def getattr_def
          evaluate_def and_then_def error_response_error_body)
qed

theorem missing_object_is_not_found_witness:
  "super_get_object sample_viewset 0 =
     (Inl (plain_exception [Http404] ''No Article matches the given query.''), 0) \<and>
   isinstance (plain_exception [Http404] ''No Article matches the given query.'') Http404 \<and>
   get_object sample_viewset (0, []) =
     (Inl (NotFound_new ''Object not found.''), (0, [Called Super_get_object])) \<and>
   retrieve sample_viewset (0, []) =
     (Inl (NotFound_new ''Object not found.''), (0, [Called Super_get_object])) \<and>
   handle_exception sample_viewset (NotFound_new ''Object not found.'') =
     Inr (error_body ''not_found'' ''Object not found.'' PNone HTTP_404_NOT_FOUND)"
proof -
  let ?e = "plain_exception [Http404] ''No Article matches the given query.''"
  have a: "super_get_object sample_viewset 0 = (Inl ?e, 0)"
    by (simp add: sample_viewset_def BaseViewSet_def raise_def)
  have b: "isinstance ?e Http404"
    by (simp add: isinstance_def plain_exception_def mro_of_def)
  from b have c: "isinstance ?e Http404 \<and> ''Object not found.'' = ''Object not found.'' \<or>
         \<not> isinstance ?e Http404 \<and> isinstance ?e ObjectDoesNotExist \<and>
         str_exc ?e = Value ''Object not found.''"
    by simp
  from a b missing_object_is_not_found[OF a c, where tr = "[]"] show ?thesis by simp
qed

text \<open>
  C7. When the three steps of \<open>filter_queryset\<close> return, the before hook ran on the
  queryset given, the parent's \<open>filter_queryset\<close> on the result of the before hook, the
  after hook on the result of the parent's; the result of the after hook is returned;
  each step ran in the world that the step before it left, and the calls were made in
  this order.
\<close>

theorem filter_queryset_wraps_filter:
  assumes "before_perform_list self queryset w = (Inr q1, w1)"
    and "super_filter_queryset self q1 w1 = (Inr q2, w2)"
    and "after_perform_list self q2 w2 = (Inr q3, w3)"
  shows "filter_queryset self queryset (w, tr) =
           (Inr q3,
            (w3, tr @ [Called Before_perform_list, Returned Before_perform_list,
                       Called Super_filter_queryset, Returned Super_filter_queryset,
                       Called After_perform_list, Returned After_perform_list]))"
  using assms
  by (simp add: filter_queryset_def then_do_def invoke_def returns_def)

theorem filter_queryset_wraps_filter_witness:
  "before_perform_list sample_viewset [1, 2, 3, 4, 5] 0 = (Inr [2, 3, 4, 5, 6], 1) \<and>
   super_filter_queryset sample_viewset [2, 3, 4, 5, 6] 1 = (Inr [2, 4, 6], 1) \<and>
   after_perform_list sample_viewset [2, 4, 6] 1 = (Inr [2, 4], 2) \<and>
   filter_queryset sample_viewset [1, 2, 3, 4, 5] (0, []) =
     (Inr [2, 4],
      (2, [Called Before_perform_list, Returned Before_perform_list,
           Called Super_filter_queryset, Returned Super_filter_queryset,
           Called After_perform_list, Returned After_perform_list]))"
proof -
  have a: "before_perform_list sample_viewset [1, 2, 3, 4, 5] 0 = (Inr [2, 3, 4, 5, 6], 1)"
    by (simp add: sample_viewset_def BaseViewSet_def)
  have b: "super_filter_queryset sample_viewset [2, 3, 4, 5, 6] 1 = (Inr [2, 4, 6], 1)"
    by (simp add: sample_viewset_def BaseViewSet_def returns_def)
  have c: "after_perform_list sample_viewset [2, 4, 6] 1 = (Inr [2, 4], 2)"
    by (simp add: sample_viewset_def BaseViewSet_def)
  from a b c filter_queryset_wraps_filter[OF a b c, where tr = "[]"] show ?thesis by simp
qed


end
